theory Spec2Isabelle
  imports Main "HOL-Library.Word" "HOL-Library.Multiset" "HOL-Library.Sublist"
    "HOL-Library.Char_ord" "HOL-Library.List_Lexorder" "HOL-Library.Product_Lexorder"
begin

section \<open>Reservation expiry (tools/explorer/pkg/workloads/types/reservation.go)\<close>

text \<open>
  Go's \<^verbatim>\<open>time.Time\<close> values that come out of a decoded reservation carry a wall clock
  reading only. An instant is the number of nanoseconds since the epoch; a
  \<^verbatim>\<open>time.Duration\<close> is a signed 64-bit count of nanoseconds, and \<^verbatim>\<open>Time.Sub\<close>
  saturates at the two ends of that range.
\<close>

type_synonym Time = int
type_synonym Duration = int

definition minDuration :: Duration where
  "minDuration = - (2 ^ 63)"

definition maxDuration :: Duration where
  "maxDuration = 2 ^ 63 - 1"

definition Sub :: "Time \<Rightarrow> Time \<Rightarrow> Duration" where
  "Sub t u =
     (let d = t - u in
      if d < minDuration then minDuration
      else if maxDuration < d then maxDuration
      else d)"

text \<open>\<^verbatim>\<open>time.Until(t)\<close> is \<^verbatim>\<open>t.Sub(time.Now())\<close>; the clock reading is an argument.\<close>

definition Until :: "Time \<Rightarrow> Time \<Rightarrow> Duration" where
  "Until now t = Sub t now"

text \<open>
  The workloads of a reservation. The five slices of \<^verbatim>\<open>ReservationData\<close> hold five
  generated struct types; validation reads their \<^verbatim>\<open>WorkloadId\<close> (an int64) only, so
  one record stands for all of them.
\<close>

record Workload =
  WorkloadId :: "64 word"
  NodeId :: string

record ReservationData =
  Containers :: "Workload list"
  Networks :: "Workload list"
  Zdbs :: "Workload list"
  Volumes :: "Workload list"
  Kubernetes :: "Workload list"
  ExpirationReservation :: Time

record Reservation =
  CustomerTid :: "64 word"
  CustomerSignature :: string
  Json :: string
  DataReservation :: ReservationData

definition Expired :: "Time \<Rightarrow> Reservation \<Rightarrow> bool" where
  "Expired now r \<longleftrightarrow> Until now (ExpirationReservation (DataReservation r)) \<le> 0"

section \<open>Reservation validation (reservation.go, validate)\<close>

datatype validate_error =
    CustomerTidRequired
  | CustomerSignatureRequired
  | InvalidJson string
  | JsonMismatch
  | ConflictingWorkloadID "64 word"

text \<open>
  One of the five loops of \<^verbatim>\<open>validate\<close>: every workload id is looked up in the set
  of ids seen so far; a hit returns the conflict, a miss records the id.
\<close>

fun checkIds :: "64 word set \<Rightarrow> Workload list \<Rightarrow> validate_error + 64 word set" where
  "checkIds ids [] = Inr ids"
| "checkIds ids (w # ws) =
     (if WorkloadId w \<in> ids then Inl (ConflictingWorkloadID (WorkloadId w))
      else checkIds (insert (WorkloadId w) ids) ws)"

text \<open>
  \<^verbatim>\<open>validate\<close> returns \<^verbatim>\<open>nil\<close> (here \<open>None\<close>) or the first error. The JSON decoder of
  the standard library is the parameter \<open>unmarshal\<close>; \<^verbatim>\<open>reflect.DeepEqual\<close> on the
  decoded data is equality.
\<close>

definition validate ::
  "(string \<Rightarrow> string + ReservationData) \<Rightarrow> Reservation \<Rightarrow> validate_error option" where
  "validate unmarshal r =
     (if CustomerTid r = 0 then Some CustomerTidRequired
      else if length (CustomerSignature r) = 0 then Some CustomerSignatureRequired
      else case unmarshal (Json r) of
        Inl e \<Rightarrow> Some (InvalidJson e)
      | Inr data \<Rightarrow>
          if DataReservation r \<noteq> data then Some JsonMismatch
          else case checkIds {} (Containers (DataReservation r)) of
            Inl e1 \<Rightarrow> Some e1
          | Inr ids1 \<Rightarrow>
          case checkIds ids1 (Networks (DataReservation r)) of
            Inl e2 \<Rightarrow> Some e2
          | Inr ids2 \<Rightarrow>
          case checkIds ids2 (Zdbs (DataReservation r)) of
            Inl e3 \<Rightarrow> Some e3
          | Inr ids3 \<Rightarrow>
          case checkIds ids3 (Volumes (DataReservation r)) of
            Inl e4 \<Rightarrow> Some e4
          | Inr ids4 \<Rightarrow>
          case checkIds ids4 (Kubernetes (DataReservation r)) of
            Inl e5 \<Rightarrow> Some e5
          | Inr ids5 \<Rightarrow> None)"

text \<open>All workload ids of a reservation, in the order \<^verbatim>\<open>validate\<close> visits them.\<close>

definition workloadIds :: "Reservation \<Rightarrow> 64 word list" where
  "workloadIds r =
     map WorkloadId
       (Containers (DataReservation r) @ Networks (DataReservation r) @
        Zdbs (DataReservation r) @ Volumes (DataReservation r) @
        Kubernetes (DataReservation r))"

text \<open>The five loops of \<^verbatim>\<open>validate\<close> run as one pass over the concatenated slices.\<close>

definition checkAll :: "Reservation \<Rightarrow> validate_error option" where
  "checkAll r =
     (case checkIds {} (Containers (DataReservation r) @ Networks (DataReservation r) @
        Zdbs (DataReservation r) @ Volumes (DataReservation r) @
        Kubernetes (DataReservation r)) of Inl e \<Rightarrow> Some e | Inr ids \<Rightarrow> None)"

section \<open>Node self-reservation (cmds/modules/provisiond/main.go, getNodeReserved)\<close>

text \<open>
  \<^verbatim>\<open>zos.DeviceType\<close> is a string type; its two constants are declared in package
  \<^verbatim>\<open>zos\<close> with the values below.
\<close>

type_synonym DeviceType = string

definition HDDDevice :: DeviceType where
  "HDDDevice = ''hdd''"

definition SSDDevice :: DeviceType where
  "SSDDevice = ''ssd''"

definition gib :: "64 word" where
  "gib = 1024 * 1024 * 1024"

text \<open>The cache filesystem as \<^verbatim>\<open>GetCacheFS\<close> reports it: disk type and \<^verbatim>\<open>Usage.Size\<close>.\<close>

record CacheFS =
  DiskType :: DeviceType
  UsageSize :: "64 word"

text \<open>\<^verbatim>\<open>primitives.Counters\<close>: unsigned 64-bit atomic values, zero when declared.\<close>

record Counters =
  CRU :: "64 word"
  MRU :: "64 word"
  HRU :: "64 word"
  SRU :: "64 word"

definition zeroCounters :: Counters where
  "zeroCounters = \<lparr>CRU = 0, MRU = 0, HRU = 0, SRU = 0\<rparr>"

datatype reserved_error = CacheFSError string | UnknownCacheDiskType DeviceType

text \<open>
  \<^verbatim>\<open>getNodeReserved\<close> returns the named results \<^verbatim>\<open>(counter, err)\<close>; the argument is
  what the storage stub's \<^verbatim>\<open>GetCacheFS\<close> answered.
\<close>

definition getNodeReserved :: "string + CacheFS \<Rightarrow> Counters \<times> reserved_error option" where
  "getNodeReserved cache =
     (case cache of
        Inl e \<Rightarrow> (zeroCounters, Some (CacheFSError e))
      | Inr fs \<Rightarrow>
          if DiskType fs = HDDDevice then
            (zeroCounters\<lparr>HRU := HRU zeroCounters + UsageSize fs div gib,
                          MRU := MRU zeroCounters + 2\<rparr>, None)
          else if DiskType fs = SSDDevice then
            (zeroCounters\<lparr>SRU := SRU zeroCounters + UsageSize fs div gib,
                          MRU := MRU zeroCounters + 2\<rparr>, None)
          else (zeroCounters, Some (UnknownCacheDiskType (DiskType fs))))"

section \<open>Startup order (cmds/modules/provisiond/main.go, action)\<close>

text \<open>
  Modelled from the spec: the workload type constants are declared in package
  \<^verbatim>\<open>zos\<close>, outside the sources of this repository; the closed set of types is the one
  the specification lists (network resource, volume, public IP, container, virtual
  machine, zero-db namespace), under the names \<^verbatim>\<open>main.go\<close> uses for the three it
  mentions.
\<close>

datatype WorkloadType =
    NetworkType
  | VolumeType
  | PublicIPType
  | ContainerType
  | ZMachineType
  | ZDBType


section \<open>Polling reservations (pkg/provision/explorer/source.go, Poll)\<close>

text \<open>
  \<^verbatim>\<open>provision.Reservation\<close>, the node's view of one workload. \<^verbatim>\<open>ReservationType\<close> is
  a string type.
\<close>

type_synonym ReservationType = string

record ProvReservation =
  ID :: string
  User :: string
  Type :: ReservationType
  Data :: string
  Created :: Time
  Duration :: Duration

text \<open>
  \<^verbatim>\<open>sort.Slice\<close> of the standard library makes no promise about the order of equal
  elements. On a short slice it runs insertion sort: for \<open>i\<close> from left to right,
  element \<open>i\<close> is swapped with its left neighbour while it is less than that
  neighbour. \<open>sink\<close> is the inner loop, on the prefix held in reverse (nearest
  neighbour first); \<open>insertionSort\<close> is the outer loop.
\<close>

fun sink :: "('a \<Rightarrow> 'a \<Rightarrow> bool) \<Rightarrow> 'a \<Rightarrow> 'a list \<Rightarrow> 'a list" where
  "sink lt x [] = [x]"
| "sink lt x (y # ys) = (if lt x y then y # sink lt x ys else x # y # ys)"

definition insertionSort :: "('a \<Rightarrow> 'a \<Rightarrow> bool) \<Rightarrow> 'a list \<Rightarrow> 'a list" where
  "insertionSort lt xs = rev (foldl (\<lambda>acc x. sink lt x acc) [] xs)"

text \<open>The conversion loop of \<^verbatim>\<open>Poll\<close>: the first failing conversion ends the call.\<close>

fun convertAll :: "('w \<Rightarrow> string + 'r) \<Rightarrow> 'w list \<Rightarrow> string + 'r list" where
  "convertAll conv [] = Inr []"
| "convertAll conv (w # ws) =
     (case conv w of
        Inl e \<Rightarrow> Inl e
      | Inr r \<Rightarrow> (case convertAll conv ws of Inl e \<Rightarrow> Inl e | Inr rs \<Rightarrow> Inr (r # rs)))"

text \<open>Reading a Go map: a missing key reads as the zero value.\<close>

definition orderOf :: "(ReservationType \<rightharpoonup> int) \<Rightarrow> ReservationType \<Rightarrow> int" where
  "orderOf m t = (case m t of None \<Rightarrow> 0 | Some n \<Rightarrow> n)"

datatype poll_error = RetrieveError string | ConvertError string

record 'w Poller =
  inputConv :: "'w \<Rightarrow> string + ProvReservation"
  provisionOrder :: "(ReservationType \<rightharpoonup> int) option"

text \<open>
  \<^verbatim>\<open>Poll\<close>. The answer of the explorer client (\<^verbatim>\<open>r.wl.Workloads\<close>) is the argument
  \<open>fetched\<close>; the library's \<^verbatim>\<open>sort.Slice\<close> is the argument \<open>sortSlice\<close>, called with
  the comparison \<^verbatim>\<open>Poll\<close> passes to it. A nil \<^verbatim>\<open>provisionOrder\<close> skips the sort.
\<close>

definition Poll ::
  "((ProvReservation \<Rightarrow> ProvReservation \<Rightarrow> bool) \<Rightarrow>
      ProvReservation list \<Rightarrow> ProvReservation list) \<Rightarrow>
   'w Poller \<Rightarrow> string + ('w list \<times> 64 word) \<Rightarrow>
   poll_error + (ProvReservation list \<times> 64 word)" where
  "Poll sortSlice p fetched =
     (case fetched of
        Inl e \<Rightarrow> Inl (RetrieveError e)
      | Inr (list, lastID) \<Rightarrow>
          (case convertAll (inputConv p) list of
             Inl e \<Rightarrow> Inl (ConvertError e)
           | Inr result \<Rightarrow>
               (case provisionOrder p of
                  None \<Rightarrow> Inr (result, lastID)
                | Some order \<Rightarrow>
                    Inr (sortSlice
                           (\<lambda>a b. orderOf order (Type a) < orderOf order (Type b)) result,
                         lastID))))"

text \<open>
  What \<^verbatim>\<open>sort.Slice\<close> promises for a comparison of integer keys: the slice is
  rearranged, and afterwards no element is less than one before it.
\<close>

definition sortContract ::
  "((ProvReservation \<Rightarrow> ProvReservation \<Rightarrow> bool) \<Rightarrow>
      ProvReservation list \<Rightarrow> ProvReservation list) \<Rightarrow> bool" where
  "sortContract sortSlice \<longleftrightarrow>
     (\<forall>key xs. mset (sortSlice (\<lambda>a b. key a < (key b :: int)) xs) = mset xs \<and>
        sorted (map key (sortSlice (\<lambda>a b. key a < key b) xs)))"

text \<open>
  The order the specification asks for within a type, as far as creation time goes:
  of two reservations of the same type, the one placed first was not created later.
\<close>

definition createdAscending :: "ProvReservation list \<Rightarrow> bool" where
  "createdAscending rs =
     sorted_wrt (\<lambda>a b. Type a \<noteq> Type b \<or> Created a \<le> Created b) rs"

text \<open>Two container reservations, the first created after the second.\<close>

definition lateContainer :: ProvReservation where
  "lateContainer =
     \<lparr>ID = ''1-1'', User = ''u'', Type = ''container'', Data = '''', Created = 5,
      Duration = 60\<rparr>"

definition earlyContainer :: ProvReservation where
  "earlyContainer =
     \<lparr>ID = ''2-1'', User = ''u'', Type = ''container'', Data = '''', Created = 3,
      Duration = 60\<rparr>"

definition networkFirst :: "ReservationType \<rightharpoonup> int" where
  "networkFirst = [''network'' \<mapsto> 0, ''container'' \<mapsto> 1]"

section \<open>Key pair seed files (package identity, SerializeSeed and LoadSeed)\<close>

type_synonym bytes = "8 word list"

definition SeedSize :: nat where
  "SeedSize = 32"

definition PublicKeySize :: nat where
  "PublicKeySize = 32"

record KeyPair =
  PrivateKey :: bytes
  PublicKey :: bytes

datatype seed_error =
    Panic
  | WriteError string
  | ReadError string
  | WrongSeedSize nat

text \<open>Go's built-in \<^verbatim>\<open>copy(dst, src)\<close>: the shorter length decides how much is copied.\<close>

definition copy :: "bytes \<Rightarrow> bytes \<Rightarrow> bytes" where
  "copy dst src = take (length dst) src @ drop (length src) dst"

text \<open>
  Package \<^verbatim>\<open>ed25519\<close>. The public key bytes that belong to a seed (a hash and a scalar
  multiplication on the curve) are the parameter \<open>publicOf\<close>; the library stores them in
  a 32-byte array. \<^verbatim>\<open>NewKeyFromSeed\<close> panics on a seed of the wrong length and otherwise
  returns the seed followed by the public key; \<^verbatim>\<open>Seed\<close> slices the first 32 bytes off
  a private key and panics when there are fewer.
\<close>

definition publicKeyBytes :: "(bytes \<Rightarrow> bytes) \<Rightarrow> bytes \<Rightarrow> bytes" where
  "publicKeyBytes publicOf seed = copy (replicate 32 0) (publicOf seed)"

definition NewKeyFromSeed :: "(bytes \<Rightarrow> bytes) \<Rightarrow> bytes \<Rightarrow> seed_error + bytes" where
  "NewKeyFromSeed publicOf seed =
     (if length seed \<noteq> SeedSize then Inl Panic
      else Inr (seed @ publicKeyBytes publicOf seed))"

definition Seed :: "bytes \<Rightarrow> seed_error + bytes" where
  "Seed priv = (if length priv < 32 then Inl Panic else Inr (take 32 priv))"

text \<open>
  The file system, as far as the two functions see it: the content of each existing
  file, and whether the operating system lets \<^verbatim>\<open>ioutil.WriteFile\<close> create or truncate
  a path.
\<close>

record FS =
  files :: "string \<rightharpoonup> bytes"
  writable :: "string \<Rightarrow> bool"

definition WriteFile :: "FS \<Rightarrow> string \<Rightarrow> bytes \<Rightarrow> seed_error + FS" where
  "WriteFile fs path data =
     (if writable fs path then Inr (fs\<lparr>files := (files fs)(path \<mapsto> data)\<rparr>)
      else Inl (WriteError path))"

definition ReadFile :: "FS \<Rightarrow> string \<Rightarrow> seed_error + bytes" where
  "ReadFile fs path =
     (case files fs path of None \<Rightarrow> Inl (ReadError path) | Some content \<Rightarrow> Inr content)"

definition SerializeSeed :: "KeyPair \<Rightarrow> string \<Rightarrow> FS \<Rightarrow> seed_error + FS" where
  "SerializeSeed keypair path fs =
     (case Seed (PrivateKey keypair) of
        Inl e \<Rightarrow> Inl e
      | Inr seed \<Rightarrow> WriteFile fs path seed)"

definition LoadSeed :: "(bytes \<Rightarrow> bytes) \<Rightarrow> string \<Rightarrow> FS \<Rightarrow> seed_error + KeyPair" where
  "LoadSeed publicOf path fs =
     (case ReadFile fs path of
        Inl e \<Rightarrow> Inl e
      | Inr seed \<Rightarrow>
          if length seed \<noteq> SeedSize then Inl (WrongSeedSize (length seed))
          else case NewKeyFromSeed publicOf seed of
            Inl e \<Rightarrow> Inl e
          | Inr privateKey \<Rightarrow>
              Inr \<lparr>PrivateKey = privateKey,
                   PublicKey = copy (replicate PublicKeySize 0) (drop 32 privateKey)\<rparr>)"

text \<open>
  \<^verbatim>\<open>GenerateKeyPair\<close>: \<^verbatim>\<open>ed25519.GenerateKey\<close> reads a seed of 32 random bytes (the
  argument; \<open>Inl\<close> when the random source fails) and derives both keys from it.
\<close>

definition GenerateKeyPair :: "(bytes \<Rightarrow> bytes) \<Rightarrow> string + bytes \<Rightarrow> seed_error + KeyPair" where
  "GenerateKeyPair publicOf random =
     (case random of
        Inl e \<Rightarrow> Inl (ReadError e)
      | Inr seed \<Rightarrow>
          (case NewKeyFromSeed publicOf seed of
             Inl e \<Rightarrow> Inl e
           | Inr privateKey \<Rightarrow>
               Inr \<lparr>PrivateKey = privateKey,
                    PublicKey = copy (replicate PublicKeySize 0) (drop 32 privateKey)\<rparr>))"

text \<open>
  An ed25519 key pair: the private key is a seed followed by the public key of that
  seed, and the public key field repeats the second half.
\<close>

definition isKeyPair :: "(bytes \<Rightarrow> bytes) \<Rightarrow> KeyPair \<Rightarrow> bool" where
  "isKeyPair publicOf k \<longleftrightarrow>
     length (PrivateKey k) = 64 \<and>
     drop 32 (PrivateKey k) = publicKeyBytes publicOf (take 32 (PrivateKey k)) \<and>
     PublicKey k = drop 32 (PrivateKey k)"

text \<open>
  A sample: a stand-in for the curve arithmetic, the key pair of the seed of 32 sevens
  under it, and a file system with no files where every path can be written.
\<close>

definition samplePublicOf :: "bytes \<Rightarrow> bytes" where
  "samplePublicOf seed = map (\<lambda>b. b + 1) seed"

definition sampleKeyPair :: KeyPair where
  "sampleKeyPair = \<lparr>PrivateKey = replicate 32 7 @ replicate 32 8, PublicKey = replicate 32 8\<rparr>"

definition emptyFS :: FS where
  "emptyFS = \<lparr>files = Map.empty, writable = (\<lambda>p. True)\<rparr>"

section \<open>Daemon startup (cmds/modules/provisiond/main.go, action)\<close>

text \<open>
  The steps of \<^verbatim>\<open>action\<close>, in the order of the source text. A \<^verbatim>\<open>go\<close> statement is the
  step that spawns the goroutine.
\<close>

datatype step =
    WaitLimitedCache
  | MkdirRoot
  | EnvironmentGet
  | OrphanCheck
  | NewRedisServer
  | NewRedisClient
  | IdentityNodeID
  | WaitNetworkReady
  | NewFSStore
  | NewPrimitivesProvisioner
  | GetNodeReserved
  | CapacityTotal
  | NewStatistics
  | NewStatisticsAPI
  | NewSubstrateTwins
  | NewSubstrateAdmins
  | MkdirQueues
  | ProvisionNew
  | ServerRegister
  | WithSignal
  | RuntimeUpgrade
  | GoEngineRun
  | MarkBooted
  | NewReported
  | GoReporterRun
  | GoServerRun
  | SetupAPIs
  | ListenAndServe

text \<open>
  How one step ends: it completes and \<^verbatim>\<open>action\<close> goes on (also when an error is only
  logged), it makes \<^verbatim>\<open>action\<close> return an error, or it never returns.
\<close>

datatype ending = Completes | Fails string | Blocks

datatype event = Called step | Returned step

datatype outcome = Exited "string option" | Hangs

text \<open>
  What the surroundings decide during one run of \<^verbatim>\<open>action\<close>: for every call that can
  fail its error (\<open>None\<close> for success), and for every wait whether it ends.
\<close>

record Environ =
  limitedCacheClears :: bool
  mkdirRootErr :: "string option"
  environmentErr :: "string option"
  orphan :: bool
  redisServerErr :: "string option"
  redisClientErr :: "string option"
  networkGetsReady :: bool
  fsStoreErr :: "string option"
  nodeReservedErr :: "string option"
  capacityTotalErr :: "string option"
  statisticsAPIErr :: "string option"
  twinsErr :: "string option"
  adminsErr :: "string option"
  mkdirQueuesErr :: "string option"
  provisionNewErr :: "string option"
  runtimeUpgradeReturns :: bool
  reportedErr :: "string option"
  setupAPIsErr :: "string option"
  listenAndServeErr :: "string option"

definition failing :: "string option \<Rightarrow> ending" where
  "failing err = (case err of None \<Rightarrow> Completes | Some e \<Rightarrow> Fails e)"

definition waiting :: "bool \<Rightarrow> ending" where
  "waiting ends = (if ends then Completes else Blocks)"

text \<open>
  The body of \<^verbatim>\<open>action\<close> as the list of its steps with their endings. An orphan node
  stops in \<^verbatim>\<open>select {}\<close>; the wait for networkd retries without a time limit; a
  failure of \<^verbatim>\<open>MarkBooted\<close> is logged and \<^verbatim>\<open>action\<close> goes on.
\<close>

definition actionSteps :: "Environ \<Rightarrow> (step \<times> ending) list" where
  "actionSteps env =
     [(WaitLimitedCache, waiting (limitedCacheClears env)),
      (MkdirRoot, failing (mkdirRootErr env)),
      (EnvironmentGet, failing (environmentErr env)),
      (OrphanCheck, waiting (\<not> orphan env)),
      (NewRedisServer, failing (redisServerErr env)),
      (NewRedisClient, failing (redisClientErr env)),
      (IdentityNodeID, Completes),
      (WaitNetworkReady, waiting (networkGetsReady env)),
      (NewFSStore, failing (fsStoreErr env)),
      (NewPrimitivesProvisioner, Completes),
      (GetNodeReserved, failing (nodeReservedErr env)),
      (CapacityTotal, failing (capacityTotalErr env)),
      (NewStatistics, Completes),
      (NewStatisticsAPI, failing (statisticsAPIErr env)),
      (NewSubstrateTwins, failing (twinsErr env)),
      (NewSubstrateAdmins, failing (adminsErr env)),
      (MkdirQueues, failing (mkdirQueuesErr env)),
      (ProvisionNew, failing (provisionNewErr env)),
      (ServerRegister, Completes),
      (WithSignal, Completes),
      (RuntimeUpgrade, waiting (runtimeUpgradeReturns env)),
      (GoEngineRun, Completes),
      (MarkBooted, Completes),
      (NewReported, failing (reportedErr env)),
      (GoReporterRun, Completes),
      (GoServerRun, Completes),
      (SetupAPIs, failing (setupAPIsErr env)),
      (ListenAndServe, failing (listenAndServeErr env))]"

text \<open>
  Running the steps one after the other: a completed step is called and returns, a
  failing step is called, returns and ends \<^verbatim>\<open>action\<close> with its error, a blocking step
  is called and nothing follows.
\<close>

fun run :: "(step \<times> ending) list \<Rightarrow> event list \<times> outcome" where
  "run [] = ([], Exited None)"
| "run ((s, Completes) # rest) =
     (case run rest of (tr, out) \<Rightarrow> (Called s # Returned s # tr, out))"
| "run ((s, Fails e) # rest) = ([Called s, Returned s], Exited (Some e))"
| "run ((s, Blocks) # rest) = ([Called s], Hangs)"

definition action :: "Environ \<Rightarrow> event list \<times> outcome" where
  "action env = run (actionSteps env)"

text \<open>An environment in which every call succeeds and every wait ends.\<close>

definition healthy :: Environ where
  "healthy =
     \<lparr>limitedCacheClears = True, mkdirRootErr = None, environmentErr = None,
      orphan = False, redisServerErr = None, redisClientErr = None,
      networkGetsReady = True, fsStoreErr = None, nodeReservedErr = None,
      capacityTotalErr = None, statisticsAPIErr = None, twinsErr = None,
      adminsErr = None, mkdirQueuesErr = None, provisionNewErr = None,
      runtimeUpgradeReturns = True, reportedErr = None,
      setupAPIsErr = None, listenAndServeErr = None\<rparr>"

text \<open>The events of the steps when every one of them completes.\<close>

definition eventsOf :: "step list \<Rightarrow> event list" where
  "eventsOf ss = concat (map (\<lambda>s. [Called s, Returned s]) ss)"

definition beforeUpgrade :: "step list" where
  "beforeUpgrade =
     [WaitLimitedCache, MkdirRoot, EnvironmentGet, OrphanCheck, NewRedisServer,
      NewRedisClient, IdentityNodeID, WaitNetworkReady, NewFSStore,
      NewPrimitivesProvisioner, GetNodeReserved, CapacityTotal, NewStatistics,
      NewStatisticsAPI, NewSubstrateTwins, NewSubstrateAdmins, MkdirQueues, ProvisionNew,
      ServerRegister, WithSignal]"

definition afterUpgrade :: "step list" where
  "afterUpgrade =
     [GoEngineRun, MarkBooted, NewReported, GoReporterRun, GoServerRun, SetupAPIs,
      ListenAndServe]"

section \<open>Container provisioning (modules/provision/container.go, ContainerProvision)\<close>

text \<open>The payload of a container reservation, as decoded from its \<^verbatim>\<open>Data\<close>.\<close>

record Mount =
  VolumeID :: string
  Mountpoint :: string

record Container =
  FList :: string
  Env :: "(string \<times> string) list"
  Entrypoint :: string
  Interactive :: bool
  Mounts :: "Mount list"
  NetwokID :: string

text \<open>\<^verbatim>\<open>modules.MountInfo\<close> and \<^verbatim>\<open>modules.Container\<close>, the argument of \<^verbatim>\<open>Run\<close>.\<close>

record MountInfo =
  Source :: string
  Target :: string
  MountType :: string
  Options :: "string list"

record ContainerData =
  Name :: string
  RootFS :: string
  EnvVars :: "string list"
  Namespace :: string
  MountInfos :: "MountInfo list"
  Command :: string
  CoreX :: bool

text \<open>
  The node as the provisioner changes it: the containers that exist, by namespace and
  id, and the calls that have changed something outside the process so far, in order
  (a call that fails is not recorded).
\<close>

datatype call =
    JoinCall string
  | MountCall string
  | MkdirAllCall string
  | RunCall string string
  | UmountCall string

record World =
  containers :: "(string \<times> string) set"
  calls :: "call list"

text \<open>
  The modules behind the message bus. Each function is what the module answers: an
  error (\<open>Inl\<close>, or \<open>Some\<close> for calls that return an error only) or a result.
  \<open>inspectFault\<close> and \<open>runFault\<close> are failures of the container module that do not
  depend on the containers that exist (the daemon cannot be reached, the entry point
  does not parse, the task does not start).
\<close>

record Backend =
  unmarshalData :: "string \<Rightarrow> string + Container"
  inspectFault :: "string \<Rightarrow> string \<Rightarrow> string option"
  joinNetwork :: "string \<Rightarrow> string + string"
  mountFlist :: "string \<Rightarrow> string + string"
  ownerOf :: "string \<Rightarrow> string + string"
  mkdirAll :: "string \<Rightarrow> string option"
  volumePath :: "string \<Rightarrow> string + string"
  runFault :: "string \<Rightarrow> ContainerData \<Rightarrow> string option"
  umountFlist :: "string \<Rightarrow> string option"




text \<open>\<^verbatim>\<open>path.Join("/", p)\<close> and \<^verbatim>\<open>path.Join(mnt, p)\<close> are the parameter \<open>pathJoin\<close>.\<close>

text \<open>
  The loop over the mounts of the configuration: the owner of each volume must be the
  user of the reservation; the mount point is created under the root and the volume's
  path is looked up. The first error ends the call.
\<close>

fun prepareMounts ::
  "Backend \<Rightarrow> (string \<Rightarrow> string \<Rightarrow> string) \<Rightarrow> ProvReservation \<Rightarrow> string \<Rightarrow>
   Mount list \<Rightarrow> 'a World_scheme \<Rightarrow> (string + MountInfo list) \<times> 'a World_scheme" where
  "prepareMounts be pathJoin reservation mnt [] w = (Inr [], w)"
| "prepareMounts be pathJoin reservation mnt (m # ms) w =
     (case ownerOf be (VolumeID m) of
        Inl e \<Rightarrow> (Inl e, w)
      | Inr owner \<Rightarrow>
          if owner \<noteq> User reservation then (Inl ''user is not the owner of the volume'', w)
          else
            let mountpoint = pathJoin ''/'' (Mountpoint m);
                dir = pathJoin mnt mountpoint;
                w1 = w\<lparr>calls := calls w @ [MkdirAllCall dir]\<rparr>
            in case mkdirAll be dir of
                 Some e \<Rightarrow> (Inl e, w)
               | None \<Rightarrow>
                   (case volumePath be (VolumeID m) of
                      Inl e \<Rightarrow> (Inl e, w1)
                    | Inr source \<Rightarrow>
                        (case prepareMounts be pathJoin reservation mnt ms w1 of
                           (Inl e, w2) \<Rightarrow> (Inl e, w2)
                         | (Inr infos, w2) \<Rightarrow>
                             (Inr (\<lparr>Source = source, Target = mountpoint,
                                    MountType = ''none'', Options = [''bind'']\<rparr> # infos),
                              w2))))"








section \<open>The store, the engine and the capacity ledger (packages provision and primitives)\<close>

text \<open>
  Modelled from the spec: the store, the engine that consumes the startup order and the
  statistics ledger are outside the sources of this repository; \<^verbatim>\<open>action\<close> only
  constructs them. A reservation as the store holds it: its id, type, creation time
  (Unix seconds), capacity footprint, deletion intent and the state of its result,
  which is unknown until the first provision attempt has ended. A capacity gives an
  amount for each of cru, mru, hru, sru and ipv4u and a workload count for each type.
\<close>

datatype ResultState = StateUnknown | StateOk | StateError | StateDeleted

datatype resource = Cru | Mru | Hru | Sru | Ipv4u | WorkloadCount WorkloadType

type_synonym Capacity = "resource \<Rightarrow> nat"

record SpecReservation =
  reservationId :: string
  reservationType :: WorkloadType
  createdAt :: int
  capacity :: Capacity
  toDelete :: bool
  resultState :: ResultState

definition allTypes :: "WorkloadType list" where
  "allTypes = [NetworkType, VolumeType, PublicIPType, ContainerType, ZMachineType, ZDBType]"

subsection \<open>Startup order of the engine\<close>





text \<open>
  A stored network created first, a volume, a public IP and a container created after
  it, each with a footprint of one core and one workload of its type.
\<close>

definition oneCore :: "WorkloadType \<Rightarrow> Capacity" where
  "oneCore t res = (if res = Cru \<or> res = WorkloadCount t then 1 else 0)"

definition storedOf :: "string \<Rightarrow> WorkloadType \<Rightarrow> int \<Rightarrow> SpecReservation" where
  "storedOf i t created =
     \<lparr>reservationId = i, reservationType = t, createdAt = created, capacity = oneCore t,
      toDelete = False, resultState = StateOk\<rparr>"

text \<open>A reservation as the admission interface submits it: it has no result yet.\<close>

definition requestOf :: "string \<Rightarrow> WorkloadType \<Rightarrow> int \<Rightarrow> SpecReservation" where
  "requestOf i t created = (storedOf i t created)\<lparr>resultState := StateUnknown\<rparr>"

subsection \<open>Store and ledger\<close>

text \<open>
  Modelled from the spec: the operations of the store, which keeps one record for each
  id. \<^verbatim>\<open>get\<close> returns the record of an id, \<^verbatim>\<open>set_result\<close> and \<^verbatim>\<open>mark_to_delete\<close>
  update the record of an id, \<^verbatim>\<open>remove\<close> drops it. \<^verbatim>\<open>add\<close> appends a record and fails
  when the id is present: the create handler below appends only under an id that
  \<^verbatim>\<open>get\<close> does not find.
\<close>

definition storeGet :: "SpecReservation list \<Rightarrow> string \<Rightarrow> SpecReservation option" where
  "storeGet rs i = find (\<lambda>r. reservationId r = i) rs"

definition setResult :: "SpecReservation list \<Rightarrow> string \<Rightarrow> ResultState \<Rightarrow> SpecReservation list" where
  "setResult rs i st = map (\<lambda>r. if reservationId r = i then r\<lparr>resultState := st\<rparr> else r) rs"

definition markToDelete :: "SpecReservation list \<Rightarrow> string \<Rightarrow> SpecReservation list" where
  "markToDelete rs i = map (\<lambda>r. if reservationId r = i then r\<lparr>toDelete := True\<rparr> else r) rs"

definition storeRemove :: "SpecReservation list \<Rightarrow> string \<Rightarrow> SpecReservation list" where
  "storeRemove rs i = filter (\<lambda>r. reservationId r \<noteq> i) rs"

text \<open>
  Modelled from the spec: the ledger holds the current totals and the configured node
  capacity. \<^verbatim>\<open>reserve\<close> is an atomic check-and-add that fails when a total would pass
  the node capacity; \<^verbatim>\<open>release\<close> never fails and clamps at zero.
\<close>

record Engine =
  store :: "SpecReservation list"
  current :: Capacity
  total :: Capacity

definition allResources :: "resource list" where
  "allResources = [Cru, Mru, Hru, Sru, Ipv4u] @ map WorkloadCount allTypes"

definition reserve :: "Engine \<Rightarrow> Capacity \<Rightarrow> Engine option" where
  "reserve s c =
     (if list_all (\<lambda>res. current s res + c res \<le> total s res) allResources
      then Some (s\<lparr>current := (\<lambda>res. current s res + c res)\<rparr>)
      else None)"

definition release :: "Engine \<Rightarrow> Capacity \<Rightarrow> Engine" where
  "release s c = s\<lparr>current := (\<lambda>res. current s res - c res)\<rparr>"

text \<open>
  Modelled from the spec: the events the engine handles. A create event carries the
  reservation and whether it passed validation; the provision and decommission workers
  come back with their outcome (a successful decommission optionally removes the
  record); a delete event comes from the admission interface, an administrator or the
  janitor; retry ticks and shutdown touch neither store nor ledger.
\<close>

datatype provision_outcome = ProvisionOk | NoChange | Permanent | Transient

datatype decommission_outcome =
  DecommissionOk bool | DecommissionTransient | DecommissionPermanent

datatype engine_event =
    Create SpecReservation bool
  | ProvisionComplete string provision_outcome
  | Delete string
  | DecommissionComplete string decommission_outcome
  | RetryTick string
  | Shutdown

text \<open>
  Modelled from the spec: the handlers of the engine.
  \<^item> Create: an invalid reservation is rejected and never persisted. Resubmitting a
    stored id is a no-op that charges nothing, unless it flips \<open>to_delete\<close> from false to
    true. Otherwise the capacity is reserved; when the node cannot host it the
    reservation is persisted with an error result and nothing is charged; else it is
    added with no result yet.
  \<^item> Provision complete, for a stored reservation that has no result yet (by default a
    persisted error is not retried) and is not marked for deletion (a marked
    reservation may not become ok, and the worker a delete cancels hands over to the
    decommission): ok and no-change set the result to ok; a permanent error sets it to
    error and releases the capacity; a transient error persists nothing and keeps the
    capacity reserved.
  \<^item> Delete: marks the reservation.
  \<^item> Decommission complete, for a marked reservation that is not yet deleted: ok sets
    the result to deleted, releases the capacity and optionally removes the record; a
    permanent error does the same and removes the record; a transient error releases
    nothing.
\<close>

definition handle :: "Engine \<Rightarrow> engine_event \<Rightarrow> Engine" where
  "handle s ev =
     (case ev of
        Create r valid \<Rightarrow>
          if \<not> valid then s
          else (case storeGet (store s) (reservationId r) of
                  Some old \<Rightarrow>
                    if toDelete r \<and> \<not> toDelete old
                    then s\<lparr>store := markToDelete (store s) (reservationId r)\<rparr>
                    else s
                | None \<Rightarrow>
                    (case reserve s (capacity r) of
                       None \<Rightarrow> s\<lparr>store := store s @ [r\<lparr>resultState := StateError\<rparr>]\<rparr>
                     | Some s' \<Rightarrow> s'\<lparr>store := store s @ [r\<lparr>resultState := StateUnknown\<rparr>]\<rparr>))
      | ProvisionComplete i out \<Rightarrow>
          (case storeGet (store s) i of
             None \<Rightarrow> s
           | Some r \<Rightarrow>
               if resultState r \<noteq> StateUnknown \<or> toDelete r then s
               else (case out of
                       ProvisionOk \<Rightarrow> s\<lparr>store := setResult (store s) i StateOk\<rparr>
                     | NoChange \<Rightarrow> s\<lparr>store := setResult (store s) i StateOk\<rparr>
                     | Permanent \<Rightarrow>
                         (release s (capacity r))\<lparr>store := setResult (store s) i StateError\<rparr>
                     | Transient \<Rightarrow> s))
      | Delete i \<Rightarrow> s\<lparr>store := markToDelete (store s) i\<rparr>
      | DecommissionComplete i out \<Rightarrow>
          (case storeGet (store s) i of
             None \<Rightarrow> s
           | Some r \<Rightarrow>
               if \<not> toDelete r \<or> resultState r = StateDeleted then s
               else (case out of
                       DecommissionOk removeIt \<Rightarrow>
                         (release s (capacity r))
                           \<lparr>store := (if removeIt then storeRemove (store s) i
                                      else setResult (store s) i StateDeleted)\<rparr>
                     | DecommissionTransient \<Rightarrow> s
                     | DecommissionPermanent \<Rightarrow>
                         (release s (capacity r))\<lparr>store := storeRemove (store s) i\<rparr>))
      | RetryTick i \<Rightarrow> s
      | Shutdown \<Rightarrow> s)"

fun handleAll :: "Engine \<Rightarrow> engine_event list \<Rightarrow> Engine" where
  "handleAll s [] = s"
| "handleAll s (ev # evs) = handleAll (handle s ev) evs"

definition freshEngine :: "Capacity \<Rightarrow> Engine" where
  "freshEngine nodeCapacity = \<lparr>store = [], current = (\<lambda>res. 0), total = nodeCapacity\<rparr>"


text \<open>
  The sum the handlers keep: the capacity of the stored reservations that hold a
  charge, which are those admitted and neither failed for good nor decommissioned.
\<close>

definition charged :: "SpecReservation \<Rightarrow> bool" where
  "charged r \<longleftrightarrow> resultState r = StateUnknown \<or> resultState r = StateOk"

definition chargedSum :: "SpecReservation list \<Rightarrow> Capacity" where
  "chargedSum rs res = (\<Sum>r\<leftarrow>rs. if charged r then capacity r res else 0)"



text \<open>A node with four units of everything.\<close>

definition fourOfAll :: Capacity where
  "fourOfAll res = 4"

section \<open>Waiting for the 0-db container's address (modules/provision, createZdbContainer)\<close>

text \<open>
  The retry library the daemon uses (\<^verbatim>\<open>github.com/cenkalti/backoff\<close>, version 3) is not
  part of the repository; this is its \<^verbatim>\<open>ExponentialBackOff\<close> as \<^verbatim>\<open>createZdbContainer\<close>
  uses it. Durations and clock readings are integer nanoseconds. The randomization
  factor (0.5) and the multiplier (1.5) are the library's defaults, which the code leaves
  alone, so they are written into the functions.
\<close>

definition millisecond :: int where
  "millisecond = 1000000"

definition second :: int where
  "second = 1000 * millisecond"

definition minute :: int where
  "minute = 60 * second"

definition Stop :: int where
  "Stop = - 1"

record BackOff =
  InitialInterval :: int
  MaxInterval :: int
  MaxElapsedTime :: int
  currentInterval :: int
  startTime :: int

definition Reset :: "BackOff \<Rightarrow> int \<Rightarrow> BackOff" where
  "Reset b now = b\<lparr>currentInterval := InitialInterval b, startTime := now\<rparr>"

definition NewExponentialBackOff :: "int \<Rightarrow> BackOff" where
  "NewExponentialBackOff now =
     Reset \<lparr>InitialInterval = 500 * millisecond, MaxInterval = 60 * second,
            MaxElapsedTime = 15 * minute, currentInterval = 0, startTime = 0\<rparr> now"

text \<open>
  \<^verbatim>\<open>incrementCurrentInterval\<close>: the interval grows by the factor 1.5, cut to whole
  nanoseconds, until that would pass \<^verbatim>\<open>MaxInterval\<close>; from then on it is
  \<^verbatim>\<open>MaxInterval\<close>.
\<close>

definition grow :: "int \<Rightarrow> int \<Rightarrow> int" where
  "grow maxInterval cur = (if 2 * maxInterval \<le> 3 * cur then maxInterval else (cur * 3) div 2)"

definition incrementCurrentInterval :: "BackOff \<Rightarrow> BackOff" where
  "incrementCurrentInterval b = b\<lparr>currentInterval := grow (MaxInterval b) (currentInterval b)\<rparr>"

text \<open>
  \<^verbatim>\<open>getRandomValueFromInterval\<close> with factor 0.5: for the random number \<open>k / 2 ^ 53\<close>
  in \<open>[0, 1)\<close> the wait is \<open>cur / 2 + (k / 2 ^ 53) * (cur + 1)\<close>, cut to whole nanoseconds.
\<close>

definition getRandomValueFromInterval :: "nat \<Rightarrow> int \<Rightarrow> int" where
  "getRandomValueFromInterval k cur =
     (cur * 2 ^ 53 + 2 * int (k mod 2 ^ 53) * (cur + 1)) div 2 ^ 54"

text \<open>
  \<^verbatim>\<open>NextBackOff\<close>: \<^verbatim>\<open>Stop\<close> once more than \<^verbatim>\<open>MaxElapsedTime\<close> has passed since the
  start (a limit of zero means no limit); otherwise a wait drawn around the current
  interval, after which the interval grows.
\<close>

definition NextBackOff :: "BackOff \<Rightarrow> int \<Rightarrow> nat \<Rightarrow> int \<times> BackOff" where
  "NextBackOff b now k =
     (if MaxElapsedTime b \<noteq> 0 \<and> MaxElapsedTime b < now - startTime b then (Stop, b)
      else (getRandomValueFromInterval k (currentInterval b), incrementCurrentInterval b))"

text \<open>
  What happens around the loop: whether the \<open>n\<close>-th call of the operation fails and
  with which error, how long it takes, and the random number drawn after it.
\<close>

record Attempts =
  attemptError :: "nat \<Rightarrow> string option"
  attemptTime :: "nat \<Rightarrow> nat"
  randomDraw :: "nat \<Rightarrow> nat"

datatype retry_result = Succeeded | GaveUp string

text \<open>
  The loop of \<^verbatim>\<open>RetryNotify\<close> (the context is the background context, which is never
  cancelled): call the operation; on an error ask for the next wait, give the error
  back on \<^verbatim>\<open>Stop\<close>, otherwise sleep and go round again. The loop need not end, so it
  runs on fuel; \<open>None\<close> means the fuel ran out. The result comes with one entry for
  every failed call that was followed by a wait (the clock reading when the call
  ended, the interval at that moment and the wait drawn) and the clock reading at the
  end.
\<close>

type_synonym round = "int \<times> int \<times> int"

fun retryLoop ::
  "nat \<Rightarrow> Attempts \<Rightarrow> nat \<Rightarrow> BackOff \<Rightarrow> int \<Rightarrow> round list \<Rightarrow>
   (retry_result \<times> round list \<times> int) option" where
  "retryLoop 0 env n b now waits = None"
| "retryLoop (Suc fuel) env n b now waits =
     (let now1 = now + int (attemptTime env n) in
      case attemptError env n of
        None \<Rightarrow> Some (Succeeded, waits, now1)
      | Some err \<Rightarrow>
          (case NextBackOff b now1 (randomDraw env n) of
             (next, b') \<Rightarrow>
               if next = Stop then Some (GaveUp err, waits, now1)
               else retryLoop fuel env (Suc n) b' (now1 + next)
                      (waits @ [(now1, currentInterval b, next)])))"

definition RetryNotify ::
  "nat \<Rightarrow> Attempts \<Rightarrow> BackOff \<Rightarrow> int \<Rightarrow> (retry_result \<times> round list \<times> int) option" where
  "RetryNotify fuel env b now = retryLoop fuel env 0 (Reset b now) now []"

text \<open>
  The end of \<^verbatim>\<open>createZdbContainer\<close>: a new exponential backoff with \<^verbatim>\<open>MaxInterval\<close>
  set to two minutes retries \<^verbatim>\<open>getIP\<close>.
\<close>

definition zdbBackOff :: "int \<Rightarrow> BackOff" where
  "zdbBackOff now = (NewExponentialBackOff now)\<lparr>MaxInterval := 2 * minute\<rparr>"

definition waitForIP ::
  "nat \<Rightarrow> Attempts \<Rightarrow> int \<Rightarrow> (retry_result \<times> round list \<times> int) option" where
  "waitForIP fuel env now = RetryNotify fuel env (zdbBackOff now) now"

text \<open>No public address ever shows up; every look takes a millisecond.\<close>

definition neverFound :: Attempts where
  "neverFound =
     \<lparr>attemptError = (\<lambda>n. Some ''not up public found, waiting''),
      attemptTime = (\<lambda>n. 1000000),
      randomDraw = (\<lambda>n. 0)\<rparr>"

text \<open>
  The intervals of an exponential backoff: the first is \<open>c\<close>, each following one grows
  out of the one before.
\<close>

fun intervalsFrom :: "int \<Rightarrow> int \<Rightarrow> int list \<Rightarrow> bool" where
  "intervalsFrom maxInterval c [] = True"
| "intervalsFrom maxInterval c (x # xs) =
     (x = c \<and> intervalsFrom maxInterval (grow maxInterval c) xs)"

text \<open>
  The clock along the rounds: call \<open>n\<close> starts at \<open>now\<close> and ends after its
  duration; the next call starts when the wait after it is over; the last call ends at
  \<open>t\<close>.
\<close>

fun timeline :: "Attempts \<Rightarrow> nat \<Rightarrow> int \<Rightarrow> round list \<Rightarrow> int \<Rightarrow> bool" where
  "timeline env n now [] t \<longleftrightarrow> t = now + int (attemptTime env n)"
| "timeline env n now ((ended, c, w) # rounds) t \<longleftrightarrow>
     ended = now + int (attemptTime env n) \<and> timeline env (Suc n) (ended + w) rounds t"

text \<open>The outcome of a retry with the number of waits and the final clock reading.\<close>

definition summary ::
  "(retry_result \<times> round list \<times> int) option \<Rightarrow> (retry_result \<times> nat \<times> int) option" where
  "summary r = map_option (\<lambda>(out, waits, t). (out, length waits, t)) r"

section \<open>Theorems\<close>

subsection \<open>Expiry\<close>

lemma Sub_nonpos_iff: "Sub t u \<le> 0 \<longleftrightarrow> t \<le> u"
  by (simp add: Sub_def minDuration_def maxDuration_def Let_def)

text \<open>
  C6. A reservation is expired exactly when its expiration timestamp is at or before
  the current time: \<^verbatim>\<open>Expired\<close> is true if and only if the time remaining until
  \<^verbatim>\<open>ExpirationReservation\<close> is at most zero, that is \<open>expires_at \<le> now\<close>.
\<close>

theorem Expired_iff:
  "Expired now r = (ExpirationReservation (DataReservation r) \<le> now)"
  by (simp add: Expired_def Until_def Sub_nonpos_iff)

subsection \<open>Validation\<close>

lemma checkIds_Inr:
  "checkIds ids ws = Inr ids' \<longleftrightarrow>
     (distinct (map WorkloadId ws) \<and> set (map WorkloadId ws) \<inter> ids = {} \<and>
      ids' = ids \<union> set (map WorkloadId ws))"
  by (induction ws arbitrary: ids) auto

lemma checkIds_append:
  "checkIds ids (xs @ ys) =
     (case checkIds ids xs of Inl e \<Rightarrow> Inl e | Inr ids' \<Rightarrow> checkIds ids' ys)"
  by (induction xs arbitrary: ids) auto

lemma checkIds_empty_distinct:
  "(\<exists>ids'. checkIds {} ws = Inr ids') \<longleftrightarrow> distinct (map WorkloadId ws)"
  by (simp add: checkIds_Inr)

lemma checkAll_None: "checkAll r = None \<longleftrightarrow> distinct (workloadIds r)"
proof -
  let ?ws = "Containers (DataReservation r) @ Networks (DataReservation r) @
        Zdbs (DataReservation r) @ Volumes (DataReservation r) @
        Kubernetes (DataReservation r)"
  have "checkAll r = None \<longleftrightarrow> (\<exists>ids'. checkIds {} ?ws = Inr ids')"
    unfolding checkAll_def by (cases "checkIds {} ?ws") simp_all
  also have "\<dots> \<longleftrightarrow> distinct (map WorkloadId ?ws)"
    by (rule checkIds_empty_distinct)
  finally show ?thesis by (simp only: workloadIds_def)
qed

lemma validate_checkAll:
  "validate unmarshal r =
     (if CustomerTid r = 0 then Some CustomerTidRequired
      else if length (CustomerSignature r) = 0 then Some CustomerSignatureRequired
      else case unmarshal (Json r) of
        Inl e \<Rightarrow> Some (InvalidJson e)
      | Inr data \<Rightarrow>
          if DataReservation r \<noteq> data then Some JsonMismatch else checkAll r)"
  unfolding validate_def checkAll_def checkIds_append
  by (simp split: sum.split)

lemma validate_None_iff:
  "validate unmarshal r = None \<longleftrightarrow>
     (CustomerTid r \<noteq> 0 \<and> CustomerSignature r \<noteq> [] \<and>
      unmarshal (Json r) = Inr (DataReservation r) \<and> distinct (workloadIds r))"
  by (auto simp: validate_checkAll checkAll_None split: sum.splits)

text \<open>
  C10. Validation rejects duplicate workload identifiers: whenever two workloads of the
  reservation's data, in the same slice or across containers, networks, zdbs, volumes
  and kubernetes, share a \<^verbatim>\<open>WorkloadId\<close>, \<^verbatim>\<open>validate\<close> returns an error; so a
  reservation that passes validation has pairwise distinct workload ids.
\<close>

theorem validate_rejects_duplicate_ids:
  "(\<not> distinct (workloadIds r) \<longrightarrow> (\<exists>e. validate unmarshal r = Some e)) \<and>
   (validate unmarshal r = None \<longrightarrow> distinct (workloadIds r))"
  using validate_None_iff [of unmarshal r] by (cases "validate unmarshal r") auto

theorem validate_rejects_duplicate_ids_witness:
  "\<not> distinct (workloadIds
      \<lparr>CustomerTid = 1, CustomerSignature = ''sig'', Json = ''{}'',
       DataReservation =
         \<lparr>Containers = [\<lparr>WorkloadId = 7, NodeId = ''n1''\<rparr>], Networks = [],
          Zdbs = [], Volumes = [\<lparr>WorkloadId = 7, NodeId = ''n2''\<rparr>], Kubernetes = [],
          ExpirationReservation = 0\<rparr>\<rparr>) \<and>
   (\<exists>e. validate
      (\<lambda>s. Inr \<lparr>Containers = [\<lparr>WorkloadId = 7, NodeId = ''n1''\<rparr>], Networks = [],
          Zdbs = [], Volumes = [\<lparr>WorkloadId = 7, NodeId = ''n2''\<rparr>], Kubernetes = [],
          ExpirationReservation = 0\<rparr>)
      \<lparr>CustomerTid = 1, CustomerSignature = ''sig'', Json = ''{}'',
       DataReservation =
         \<lparr>Containers = [\<lparr>WorkloadId = 7, NodeId = ''n1''\<rparr>], Networks = [],
          Zdbs = [], Volumes = [\<lparr>WorkloadId = 7, NodeId = ''n2''\<rparr>], Kubernetes = [],
          ExpirationReservation = 0\<rparr>\<rparr> = Some e) \<and>
   validate
      (\<lambda>s. Inr \<lparr>Containers = [\<lparr>WorkloadId = 7, NodeId = ''n1''\<rparr>], Networks = [],
          Zdbs = [], Volumes = [\<lparr>WorkloadId = 8, NodeId = ''n2''\<rparr>], Kubernetes = [],
          ExpirationReservation = 0\<rparr>)
      \<lparr>CustomerTid = 1, CustomerSignature = ''sig'', Json = ''{}'',
       DataReservation =
         \<lparr>Containers = [\<lparr>WorkloadId = 7, NodeId = ''n1''\<rparr>], Networks = [],
          Zdbs = [], Volumes = [\<lparr>WorkloadId = 8, NodeId = ''n2''\<rparr>], Kubernetes = [],
          ExpirationReservation = 0\<rparr>\<rparr> = None"
proof -
  let ?d = "\<lparr>Containers = [\<lparr>WorkloadId = 7, NodeId = ''n1''\<rparr>], Networks = [],
          Zdbs = [], Volumes = [\<lparr>WorkloadId = 7, NodeId = ''n2''\<rparr>], Kubernetes = [],
          ExpirationReservation = 0\<rparr>"
  let ?r = "\<lparr>CustomerTid = 1, CustomerSignature = ''sig'', Json = ''{}'',
       DataReservation = ?d\<rparr>"
  have dup: "\<not> distinct (workloadIds ?r)"
    by (simp add: workloadIds_def)
  have err: "\<exists>e. validate (\<lambda>s. Inr ?d) ?r = Some e"
    using validate_rejects_duplicate_ids [of ?r "\<lambda>s. Inr ?d"] dup by blast
  have ok: "validate
      (\<lambda>s. Inr \<lparr>Containers = [\<lparr>WorkloadId = 7, NodeId = ''n1''\<rparr>], Networks = [],
          Zdbs = [], Volumes = [\<lparr>WorkloadId = 8, NodeId = ''n2''\<rparr>], Kubernetes = [],
          ExpirationReservation = 0\<rparr>)
      \<lparr>CustomerTid = 1, CustomerSignature = ''sig'', Json = ''{}'',
       DataReservation =
         \<lparr>Containers = [\<lparr>WorkloadId = 7, NodeId = ''n1''\<rparr>], Networks = [],
          Zdbs = [], Volumes = [\<lparr>WorkloadId = 8, NodeId = ''n2''\<rparr>], Kubernetes = [],
          ExpirationReservation = 0\<rparr>\<rparr> = None"
    by (simp add: validate_def)
  from dup err ok show ?thesis by blast
qed

subsection \<open>Node self-reservation\<close>

lemma gib_eq: "gib = 2 ^ 30"
  by (simp add: gib_def)

lemma unat_div_gib: "unat (x div gib) = unat x div 2 ^ 30"
  by (simp add: gib_eq unat_div)

text \<open>
  C9. The capacity the node reserves for itself: when the cache filesystem is read and
  sits on an HDD device, the result is 2 units of MRU and the filesystem's size in whole
  GiB (integer division by \<open>2 ^ 30\<close>) of HRU, nothing else; on an SSD device the size goes
  to SRU instead; for any other disk type an error is returned and nothing is reserved.
\<close>

theorem getNodeReserved_spec:
  "(DiskType fs = HDDDevice \<longrightarrow>
      snd (getNodeReserved (Inr fs)) = None \<and>
      unat (MRU (fst (getNodeReserved (Inr fs)))) = 2 \<and>
      unat (HRU (fst (getNodeReserved (Inr fs)))) = unat (UsageSize fs) div 2 ^ 30 \<and>
      SRU (fst (getNodeReserved (Inr fs))) = 0 \<and>
      CRU (fst (getNodeReserved (Inr fs))) = 0) \<and>
   (DiskType fs = SSDDevice \<longrightarrow>
      snd (getNodeReserved (Inr fs)) = None \<and>
      unat (MRU (fst (getNodeReserved (Inr fs)))) = 2 \<and>
      unat (SRU (fst (getNodeReserved (Inr fs)))) = unat (UsageSize fs) div 2 ^ 30 \<and>
      HRU (fst (getNodeReserved (Inr fs))) = 0 \<and>
      CRU (fst (getNodeReserved (Inr fs))) = 0) \<and>
   (DiskType fs \<noteq> HDDDevice \<and> DiskType fs \<noteq> SSDDevice \<longrightarrow>
      getNodeReserved (Inr fs) = (zeroCounters, Some (UnknownCacheDiskType (DiskType fs))))"
  by (simp add: getNodeReserved_def zeroCounters_def unat_div_gib HDDDevice_def SSDDevice_def)

theorem getNodeReserved_spec_witness:
  "getNodeReserved (Inr \<lparr>DiskType = ''hdd'', UsageSize = 5368709125\<rparr>) =
     (\<lparr>CRU = 0, MRU = 2, HRU = 5, SRU = 0\<rparr>, None) \<and>
   unat (HRU (fst (getNodeReserved (Inr \<lparr>DiskType = ''hdd'', UsageSize = 5368709125\<rparr>)))) =
     unat (5368709125 :: 64 word) div 2 ^ 30 \<and>
   getNodeReserved (Inr \<lparr>DiskType = ''ssd'', UsageSize = 5368709125\<rparr>) =
     (\<lparr>CRU = 0, MRU = 2, HRU = 0, SRU = 5\<rparr>, None) \<and>
   getNodeReserved (Inr \<lparr>DiskType = ''nvme'', UsageSize = 5368709125\<rparr>) =
     (\<lparr>CRU = 0, MRU = 0, HRU = 0, SRU = 0\<rparr>, Some (UnknownCacheDiskType ''nvme''))"
  using getNodeReserved_spec [of "\<lparr>DiskType = ''hdd'', UsageSize = 5368709125\<rparr>"]
    getNodeReserved_spec [of "\<lparr>DiskType = ''nvme'', UsageSize = 5368709125\<rparr>"]
  by (simp add: getNodeReserved_def zeroCounters_def gib_def HDDDevice_def SSDDevice_def)

subsection \<open>Startup order\<close>
















subsection \<open>Polling\<close>

lemma mset_sink: "mset (sink lt x ys) = add_mset x (mset ys)"
  by (induction ys) auto

lemma mset_foldl_sink: "mset (foldl (\<lambda>acc x. sink lt x acc) acc xs) = mset acc + mset xs"
  by (induction xs arbitrary: acc) (auto simp: mset_sink)

lemma mset_insertionSort: "mset (insertionSort lt xs) = mset xs"
  by (simp add: insertionSort_def mset_foldl_sink)

lemma set_sink: "set (sink lt x ys) = insert x (set ys)"
  by (induction ys) auto

lemma desc_sink:
  fixes key :: "'a \<Rightarrow> int"
  assumes "sorted (rev (map key ys))"
  shows "sorted (rev (map key (sink (\<lambda>a b. key a < key b) x ys)))"
  using assms
  by (induction ys) (auto simp: sorted_append set_sink)

lemma desc_foldl_sink:
  fixes key :: "'a \<Rightarrow> int"
  assumes "sorted (rev (map key acc))"
  shows "sorted (rev (map key (foldl (\<lambda>acc x. sink (\<lambda>a b. key a < key b) x acc) acc xs)))"
  using assms
  by (induction xs arbitrary: acc) (auto simp: desc_sink)

lemma sorted_insertionSort:
  fixes key :: "'a \<Rightarrow> int"
  shows "sorted (map key (insertionSort (\<lambda>a b. key a < key b) xs))"
  using desc_foldl_sink [of key "[]" xs]
  by (simp add: insertionSort_def rev_map)

lemma sortContract_insertionSort: "sortContract insertionSort"
  unfolding sortContract_def
  by (simp add: mset_insertionSort sorted_insertionSort)

lemma Poll_late_early:
  "Poll insertionSort \<lparr>inputConv = Inr, provisionOrder = Some networkFirst\<rparr>
     (Inr ([lateContainer, earlyContainer], 2)) = Inr ([lateContainer, earlyContainer], 2)"
  by (simp add: Poll_def insertionSort_def orderOf_def networkFirst_def
      lateContainer_def earlyContainer_def)

text \<open>
  C3 (as stated). In the output of \<^verbatim>\<open>Poll\<close>, reservations of the same type appear in
  ascending order of creation. Two container reservations polled with the later one
  first come out with the later one first.
\<close>

theorem Poll_created_order_counterexample:
  "Poll insertionSort \<lparr>inputConv = Inr, provisionOrder = Some networkFirst\<rparr>
     (Inr ([lateContainer, earlyContainer], 2)) = Inr ([lateContainer, earlyContainer], 2) \<and>
   Type lateContainer = Type earlyContainer \<and>
   Created earlyContainer < Created lateContainer \<and>
   \<not> createdAscending [lateContainer, earlyContainer]"
proof -
  have "\<not> createdAscending [lateContainer, earlyContainer]"
    and "Type lateContainer = Type earlyContainer"
    and "Created earlyContainer < Created lateContainer"
    by (simp_all add: createdAscending_def lateContainer_def earlyContainer_def)
  with Poll_late_early show ?thesis by blast
qed

text \<open>
  C3 (amended). \<^verbatim>\<open>Poll\<close> orders a batch by the provision order of the reservations'
  types only: its output is a rearrangement of the converted input in which the
  provision order of the types never decreases, and it is the converted input unchanged
  when no provision order is configured. Creation time and id play no part.
\<close>

theorem Poll_sorted_by_type_order:
  assumes "sortContract sortSlice"
    and "Poll sortSlice p (Inr (ws, lastID)) = Inr (rs, lastID')"
  shows "lastID' = lastID \<and>
     (\<exists>cs. convertAll (inputConv p) ws = Inr cs \<and> mset rs = mset cs \<and>
        (case provisionOrder p of
           None \<Rightarrow> rs = cs
         | Some order \<Rightarrow> sorted (map (\<lambda>r. orderOf order (Type r)) rs)))"
  using assms
  unfolding Poll_def sortContract_def
  by (auto split: sum.splits option.splits)

theorem Poll_sorted_by_type_order_witness:
  "sortContract insertionSort \<and>
   Poll insertionSort \<lparr>inputConv = Inr, provisionOrder = Some networkFirst\<rparr>
     (Inr ([lateContainer, earlyContainer\<lparr>Type := ''network''\<rparr>], 2)) =
     Inr ([earlyContainer\<lparr>Type := ''network''\<rparr>, lateContainer], 2) \<and>
   sorted (map (\<lambda>r. orderOf networkFirst (Type r))
     [earlyContainer\<lparr>Type := ''network''\<rparr>, lateContainer])"
proof -
  have run: "Poll insertionSort \<lparr>inputConv = Inr, provisionOrder = Some networkFirst\<rparr>
     (Inr ([lateContainer, earlyContainer\<lparr>Type := ''network''\<rparr>], 2)) =
     Inr ([earlyContainer\<lparr>Type := ''network''\<rparr>, lateContainer], 2)"
    by (simp add: Poll_def insertionSort_def orderOf_def networkFirst_def
        lateContainer_def earlyContainer_def)
  from Poll_sorted_by_type_order [OF sortContract_insertionSort run]
  have "sorted (map (\<lambda>r. orderOf networkFirst (Type r))
     [earlyContainer\<lparr>Type := ''network''\<rparr>, lateContainer])"
    by simp
  with run sortContract_insertionSort show ?thesis by blast
qed

subsection \<open>Seed files\<close>

lemma length_copy: "length (copy dst src) = length dst"
  by (simp add: copy_def)

lemma copy_same_length: "length src = length dst \<Longrightarrow> copy dst src = src"
  by (simp add: copy_def)

lemma length_publicKeyBytes: "length (publicKeyBytes publicOf seed) = 32"
  by (simp add: publicKeyBytes_def length_copy)

lemma isKeyPair_NewKeyFromSeed:
  assumes "NewKeyFromSeed publicOf seed = Inr privateKey"
  shows "isKeyPair publicOf
     \<lparr>PrivateKey = privateKey,
      PublicKey = copy (replicate PublicKeySize 0) (drop 32 privateKey)\<rparr>"
  using assms
  by (auto simp: NewKeyFromSeed_def isKeyPair_def SeedSize_def PublicKeySize_def
      length_publicKeyBytes copy_same_length split: if_splits)

lemma isKeyPair_GenerateKeyPair:
  "GenerateKeyPair publicOf random = Inr k \<Longrightarrow> isKeyPair publicOf k"
  unfolding GenerateKeyPair_def
  by (auto split: sum.splits dest: isKeyPair_NewKeyFromSeed)

lemma isKeyPair_LoadSeed:
  "LoadSeed publicOf path fs = Inr k \<Longrightarrow> isKeyPair publicOf k"
  unfolding LoadSeed_def
  by (auto split: sum.splits if_splits dest: isKeyPair_NewKeyFromSeed)

lemma LoadSeed_after_write:
  assumes "isKeyPair publicOf k"
    and "SerializeSeed k path fs = Inr fs'"
  shows "LoadSeed publicOf path fs' = Inr k"
proof -
  let ?seed = "take 32 (PrivateKey k)"
  from assms(1) have len: "length (PrivateKey k) = 64"
    and half: "drop 32 (PrivateKey k) = publicKeyBytes publicOf ?seed"
    and pub: "PublicKey k = drop 32 (PrivateKey k)"
    by (simp_all add: isKeyPair_def)
  from len have seed: "Seed (PrivateKey k) = Inr ?seed"
    by (simp add: Seed_def)
  with assms(2) have "files fs' path = Some ?seed"
    by (auto simp: SerializeSeed_def WriteFile_def split: if_splits)
  then have rd: "ReadFile fs' path = Inr ?seed"
    by (simp add: ReadFile_def)
  from len have slen: "length ?seed = SeedSize"
    by (simp add: SeedSize_def)
  have "?seed @ publicKeyBytes publicOf ?seed = PrivateKey k"
    using half append_take_drop_id [of 32 "PrivateKey k"] by simp
  with slen have new: "NewKeyFromSeed publicOf ?seed = Inr (PrivateKey k)"
    by (simp add: NewKeyFromSeed_def)
  have "copy (replicate PublicKeySize 0) (drop 32 (PrivateKey k)) = PublicKey k"
    using len pub by (simp add: copy_same_length PublicKeySize_def)
  with rd slen new show ?thesis
    by (simp add: LoadSeed_def)
qed

lemma LoadSeed_wrong_size:
  assumes "files fs path = Some content" and "length content \<noteq> SeedSize"
  shows "LoadSeed publicOf path fs = Inl (WrongSeedSize (length content))"
  using assms by (simp add: LoadSeed_def ReadFile_def)

text \<open>
  C8. For every ed25519 key pair and every path, when \<^verbatim>\<open>SerializeSeed\<close> has written the
  seed, \<^verbatim>\<open>LoadSeed\<close> of the same path returns a key pair whose private and public key
  equal the original ones byte for byte; and \<^verbatim>\<open>LoadSeed\<close> fails on every file whose
  content does not have exactly the seed size.
\<close>

theorem SerializeSeed_LoadSeed_roundtrip:
  "(isKeyPair publicOf k \<and> SerializeSeed k path fs = Inr fs' \<longrightarrow>
      LoadSeed publicOf path fs' = Inr k) \<and>
   (files fs path = Some content \<and> length content \<noteq> SeedSize \<longrightarrow>
      LoadSeed publicOf path fs = Inl (WrongSeedSize (length content)))"
  using LoadSeed_after_write [of publicOf k path fs fs']
    LoadSeed_wrong_size [of fs path content publicOf]
  by blast

theorem SerializeSeed_LoadSeed_roundtrip_witness:
  "isKeyPair samplePublicOf sampleKeyPair \<and>
   SerializeSeed sampleKeyPair ''/var/cache/seed.txt'' emptyFS =
     Inr (emptyFS\<lparr>files := [''/var/cache/seed.txt'' \<mapsto> replicate 32 7]\<rparr>) \<and>
   LoadSeed samplePublicOf ''/var/cache/seed.txt''
     (emptyFS\<lparr>files := [''/var/cache/seed.txt'' \<mapsto> replicate 32 7]\<rparr>) = Inr sampleKeyPair \<and>
   LoadSeed samplePublicOf ''/var/cache/seed.txt''
     (emptyFS\<lparr>files := [''/var/cache/seed.txt'' \<mapsto> [1, 2, 3]]\<rparr>) = Inl (WrongSeedSize 3)"
proof -
  have kp: "isKeyPair samplePublicOf sampleKeyPair"
    by (simp add: isKeyPair_def sampleKeyPair_def samplePublicOf_def publicKeyBytes_def
        copy_def)
  have wr: "SerializeSeed sampleKeyPair ''/var/cache/seed.txt'' emptyFS =
     Inr (emptyFS\<lparr>files := [''/var/cache/seed.txt'' \<mapsto> replicate 32 7]\<rparr>)"
    by (simp add: SerializeSeed_def Seed_def WriteFile_def sampleKeyPair_def emptyFS_def)
  have short: "files (emptyFS\<lparr>files := [''/var/cache/seed.txt'' \<mapsto> [1, 2, 3]]\<rparr>)
      ''/var/cache/seed.txt'' = Some [1, 2, 3] \<and> length [1, 2, 3 :: 8 word] \<noteq> SeedSize"
    by (simp add: SeedSize_def)
  from kp wr short
    SerializeSeed_LoadSeed_roundtrip [of samplePublicOf sampleKeyPair "''/var/cache/seed.txt''"
      emptyFS "emptyFS\<lparr>files := [''/var/cache/seed.txt'' \<mapsto> replicate 32 7]\<rparr>"]
    SerializeSeed_LoadSeed_roundtrip [of samplePublicOf sampleKeyPair "''/var/cache/seed.txt''"
      "emptyFS\<lparr>files := [''/var/cache/seed.txt'' \<mapsto> [1, 2, 3]]\<rparr>" _ "[1, 2, 3]"]
  show ?thesis by simp
qed

subsection \<open>Daemon startup\<close>

lemma run_prefix: "prefix (fst (run steps)) (eventsOf (map fst steps))"
  by (induction steps rule: run.induct) (auto simp: eventsOf_def split: prod.splits)

lemma steps_of_action:
  "map fst (actionSteps env) = beforeUpgrade @ RuntimeUpgrade # afterUpgrade"
  by (simp add: actionSteps_def beforeUpgrade_def afterUpgrade_def)

lemma eventsOf_append: "eventsOf (xs @ ys) = eventsOf xs @ eventsOf ys"
  by (simp add: eventsOf_def)

lemma eventsOf_Cons: "eventsOf (s # ss) = Called s # Returned s # eventsOf ss"
  by (simp add: eventsOf_def)

lemma set_eventsOf: "set (eventsOf ss) = Called ` set ss \<union> Returned ` set ss"
  by (induction ss) (auto simp: eventsOf_Cons eventsOf_def)

lemma action_prefix:
  assumes "action env = (tr, out)"
  shows "prefix tr
     (eventsOf beforeUpgrade @
      Called RuntimeUpgrade # Returned RuntimeUpgrade # eventsOf afterUpgrade)"
proof -
  have "prefix (fst (run (actionSteps env))) (eventsOf (map fst (actionSteps env)))"
    by (rule run_prefix)
  with assms show ?thesis
    by (simp add: action_def steps_of_action eventsOf_append eventsOf_Cons)
qed

lemma upgrade_not_elsewhere:
  "Called RuntimeUpgrade \<notin> set (eventsOf beforeUpgrade)"
  "Returned RuntimeUpgrade \<notin> set (eventsOf beforeUpgrade)"
  "Called RuntimeUpgrade \<notin> set (eventsOf afterUpgrade)"
  "Returned RuntimeUpgrade \<notin> set (eventsOf afterUpgrade)"
  "Called GoEngineRun \<notin> set (eventsOf beforeUpgrade)"
  by (auto simp: set_eventsOf beforeUpgrade_def afterUpgrade_def)

lemma upgrade_at_most_once:
  assumes "action env = (tr, out)"
  shows "count_list tr (Called RuntimeUpgrade) \<le> 1"
proof -
  let ?full = "eventsOf beforeUpgrade @
      Called RuntimeUpgrade # Returned RuntimeUpgrade # eventsOf afterUpgrade"
  from action_prefix [OF assms] obtain rest where full: "?full = tr @ rest"
    by (auto simp: prefix_def)
  have "count_list ?full (Called RuntimeUpgrade) = 1"
    using upgrade_not_elsewhere by (simp add: count_list_0_iff)
  then have "count_list tr (Called RuntimeUpgrade) + count_list rest (Called RuntimeUpgrade) = 1"
    by (simp only: full count_list_append)
  then show ?thesis by simp
qed

lemma upgrade_before_engine:
  assumes "action env = (tr, out)" and "Called GoEngineRun \<in> set tr"
  shows "\<exists>pre post. tr = pre @ Called RuntimeUpgrade # Returned RuntimeUpgrade # post \<and>
     Called RuntimeUpgrade \<notin> set pre \<and> Called RuntimeUpgrade \<notin> set post \<and>
     Called GoEngineRun \<notin> set pre \<and> Called GoEngineRun \<in> set post"
proof -
  let ?B = "eventsOf beforeUpgrade" and ?A = "eventsOf afterUpgrade"
  from action_prefix [OF assms(1)]
  have "prefix tr ?B \<or>
    (\<exists>us. tr = ?B @ us \<and> prefix us (Called RuntimeUpgrade # Returned RuntimeUpgrade # ?A))"
    by (simp only: prefix_append)
  moreover have "\<not> prefix tr ?B"
    using assms(2) upgrade_not_elsewhere(5) set_mono_prefix by blast
  ultimately obtain us where tr: "tr = ?B @ us"
    and us: "prefix us (Called RuntimeUpgrade # Returned RuntimeUpgrade # ?A)"
    by blast
  from assms(2) tr upgrade_not_elsewhere(5) have in_us: "Called GoEngineRun \<in> set us"
    by simp
  then obtain us' where us1: "us = Called RuntimeUpgrade # us'"
    and us': "prefix us' (Returned RuntimeUpgrade # ?A)"
    using us by (cases us) auto
  from in_us us1 have in_us': "Called GoEngineRun \<in> set us'"
    by simp
  then obtain post where us2: "us' = Returned RuntimeUpgrade # post"
    and post: "prefix post ?A"
    using us' by (cases us') auto
  from in_us' us2 have "Called GoEngineRun \<in> set post"
    by simp
  moreover have "Called RuntimeUpgrade \<notin> set post"
    using post upgrade_not_elsewhere(3) set_mono_prefix by blast
  moreover have "tr = ?B @ Called RuntimeUpgrade # Returned RuntimeUpgrade # post"
    by (simp add: tr us1 us2)
  ultimately show ?thesis
    using upgrade_not_elsewhere(1,5) by blast
qed

text \<open>
  C5. In every run of \<^verbatim>\<open>action\<close> the runtime upgrade hook is invoked at most once, and
  in every run that starts the engine it is invoked exactly once and has returned before
  the goroutine of the engine's main loop is spawned.
\<close>

theorem RuntimeUpgrade_once_before_engine:
  assumes "action env = (tr, out)"
  shows "count_list tr (Called RuntimeUpgrade) \<le> 1 \<and>
     (Called GoEngineRun \<in> set tr \<longrightarrow>
        count_list tr (Called RuntimeUpgrade) = 1 \<and>
        (\<exists>pre post. tr = pre @ Called RuntimeUpgrade # Returned RuntimeUpgrade # post \<and>
           Called GoEngineRun \<notin> set pre \<and> Called GoEngineRun \<in> set post))"
proof (intro conjI impI)
  show "count_list tr (Called RuntimeUpgrade) \<le> 1"
    by (rule upgrade_at_most_once [OF assms])
next
  assume run: "Called GoEngineRun \<in> set tr"
  from upgrade_before_engine [OF assms run] obtain pre post
    where tr: "tr = pre @ Called RuntimeUpgrade # Returned RuntimeUpgrade # post"
      and no: "Called RuntimeUpgrade \<notin> set pre" "Called RuntimeUpgrade \<notin> set post"
      and eng: "Called GoEngineRun \<notin> set pre" "Called GoEngineRun \<in> set post"
    by blast
  from tr no show "count_list tr (Called RuntimeUpgrade) = 1"
    by (simp add: count_list_0_iff)
  from tr eng
  show "\<exists>pre post. tr = pre @ Called RuntimeUpgrade # Returned RuntimeUpgrade # post \<and>
           Called GoEngineRun \<notin> set pre \<and> Called GoEngineRun \<in> set post"
    by blast
qed

lemma action_healthy:
  "action healthy =
     (eventsOf beforeUpgrade @ Called RuntimeUpgrade # Returned RuntimeUpgrade #
        eventsOf afterUpgrade, Exited None)"
  by (simp add: action_def actionSteps_def healthy_def failing_def waiting_def
      eventsOf_def beforeUpgrade_def afterUpgrade_def)

theorem RuntimeUpgrade_once_before_engine_witness:
  "action healthy =
     (eventsOf beforeUpgrade @ Called RuntimeUpgrade # Returned RuntimeUpgrade #
        eventsOf afterUpgrade, Exited None) \<and>
   Called GoEngineRun \<in> set (fst (action healthy)) \<and>
   count_list (fst (action healthy)) (Called RuntimeUpgrade) = 1"
proof -
  have eng: "Called GoEngineRun \<in> set (eventsOf beforeUpgrade @ Called RuntimeUpgrade #
      Returned RuntimeUpgrade # eventsOf afterUpgrade)"
    by (simp add: set_eventsOf afterUpgrade_def)
  from RuntimeUpgrade_once_before_engine [OF action_healthy] eng
  show ?thesis
    by (simp add: action_healthy)
qed

subsection \<open>Submitting a reservation twice\<close>




subsection \<open>Container provisioning\<close>

lemma prepareMounts_containers:
  "prepareMounts be pathJoin r mnt ms w = (res, w') \<Longrightarrow> containers w' = containers w"
proof (induction ms arbitrary: w res w')
  case Nil
  then show ?case by simp
next
  case (Cons m ms)
  then show ?case
    by (fastforce simp: Let_def split: sum.splits if_splits option.splits prod.splits)
qed











subsection \<open>The capacity ledger\<close>





















text \<open>
  A decommission that completes for a reservation whose provision failed for good
  releases its capacity a second time: the ledger then holds less than the reservations
  that are still charged, here nothing while \<open>c2\<close> awaits its provision.
\<close>

lemma refund_twice_example:
  "current (handleAll (freshEngine fourOfAll)
      [Create (requestOf ''c1'' ContainerType 2) True,
       Create (requestOf ''c2'' ContainerType 3) True,
       ProvisionComplete ''c1'' Permanent, Delete ''c1'',
       DecommissionComplete ''c1'' (DecommissionOk False)]) Cru = 0 \<and>
   chargedSum (store (handleAll (freshEngine fourOfAll)
      [Create (requestOf ''c1'' ContainerType 2) True,
       Create (requestOf ''c2'' ContainerType 3) True,
       ProvisionComplete ''c1'' Permanent, Delete ''c1'',
       DecommissionComplete ''c1'' (DecommissionOk False)])) Cru = 1"
  by (simp add: handle_def freshEngine_def storeGet_def setResult_def markToDelete_def
      reserve_def release_def allResources_def allTypes_def fourOfAll_def
      chargedSum_def charged_def requestOf_def storedOf_def oneCore_def)




subsection \<open>Waiting for the 0-db container's address\<close>

lemma getRandomValue_lower:
  assumes "0 \<le> cur"
  shows "cur div 2 \<le> getRandomValueFromInterval k cur"
proof -
  have "(cur * 2 ^ 53) div (2 * 2 ^ 53) = cur div (2::int)"
    by (rule div_mult_mult2) simp
  moreover have "cur * 2 ^ 53 \<le> cur * 2 ^ 53 + 2 * int (k mod 2 ^ 53) * (cur + 1)"
    using assms by simp
  then have "(cur * 2 ^ 53) div 2 ^ 54 \<le>
      (cur * 2 ^ 53 + 2 * int (k mod 2 ^ 53) * (cur + 1)) div 2 ^ 54"
    by (rule zdiv_mono1) simp
  ultimately show ?thesis
    by (simp add: getRandomValueFromInterval_def)
qed

lemma getRandomValue_upper:
  assumes "0 \<le> cur"
  shows "getRandomValueFromInterval k cur \<le> cur + cur div 2 + 1"
proof -
  let ?K = "int (k mod 2 ^ 53)"
  have K: "?K \<le> 2 ^ 53 - 1"
    using mod_less_divisor [of "2 ^ 53" k] by (simp add: zmod_int)
  have "?K * (cur + 1) \<le> (2 ^ 53 - 1) * (cur + 1)"
    using K assms by (intro mult_right_mono) simp_all
  then have "cur * 2 ^ 53 + 2 * ?K * (cur + 1) \<le> cur * 2 ^ 53 + 2 * ((2 ^ 53 - 1) * (cur + 1))"
    by simp
  also have "cur \<le> 2 * (cur div 2) + 1"
    by presburger
  then have "cur * 2 ^ 53 + 2 * ((2 ^ 53 - 1) * (cur + 1)) <
      (cur + cur div 2 + 2) * 2 ^ 54"
    using assms by (simp add: algebra_simps)
  finally have "(cur * 2 ^ 53 + 2 * ?K * (cur + 1)) div 2 ^ 54 < cur + cur div 2 + 2"
    by (simp add: div_less_iff_less_mult)
  then show ?thesis
    by (simp add: getRandomValueFromInterval_def)
qed

lemma grow_bounds:
  assumes "2 \<le> cur" and "cur \<le> m"
  shows "2 \<le> grow m cur" and "grow m cur \<le> m"
  using assms by (auto simp: grow_def)

lemma retryLoop_success:
  assumes "attemptError env n = None"
  shows "retryLoop (Suc fuel) env n b now waits =
     Some (Succeeded, waits, now + int (attemptTime env n))"
  using assms by (simp add: Let_def)

lemma retryLoop_stop:
  assumes "attemptError env n = Some err"
    and "MaxElapsedTime b \<noteq> 0"
    and "MaxElapsedTime b < now + int (attemptTime env n) - startTime b"
  shows "retryLoop (Suc fuel) env n b now waits =
     Some (GaveUp err, waits, now + int (attemptTime env n))"
  using assms by (simp add: Let_def NextBackOff_def)

lemma retryLoop_again:
  assumes "attemptError env n = Some err"
    and "\<not> (MaxElapsedTime b \<noteq> 0 \<and> MaxElapsedTime b < now + int (attemptTime env n) - startTime b)"
    and "0 \<le> currentInterval b"
  shows "retryLoop (Suc fuel) env n b now waits =
     retryLoop fuel env (Suc n) (incrementCurrentInterval b)
       (now + int (attemptTime env n) +
        getRandomValueFromInterval (randomDraw env n) (currentInterval b))
       (waits @ [(now + int (attemptTime env n), currentInterval b,
          getRandomValueFromInterval (randomDraw env n) (currentInterval b))])"
proof -
  have "0 \<le> getRandomValueFromInterval (randomDraw env n) (currentInterval b)"
    using getRandomValue_lower [OF assms(3), of "randomDraw env n"] assms(3) by linarith
  then have "getRandomValueFromInterval (randomDraw env n) (currentInterval b) \<noteq> Stop"
    by (simp add: Stop_def)
  with assms(1,2) show ?thesis
    by (auto simp: Let_def NextBackOff_def)
qed

lemma retryLoop_ends:
  assumes "0 < MaxElapsedTime b" and "2 \<le> currentInterval b"
    and "currentInterval b \<le> MaxInterval b"
  shows "\<exists>fuel out ws t.
     retryLoop fuel env n b now waits = Some (out, waits @ ws, t) \<and>
     (\<forall>i < length ws. attemptError env (n + i) \<noteq> None) \<and>
     (case out of
        Succeeded \<Rightarrow> attemptError env (n + length ws) = None
      | GaveUp err \<Rightarrow>
          attemptError env (n + length ws) = Some err \<and> MaxElapsedTime b < t - startTime b) \<and>
     (\<forall>(ended, c, w) \<in> set ws.
        ended - startTime b \<le> MaxElapsedTime b \<and>
        c \<le> MaxInterval b \<and> c div 2 \<le> w \<and> w \<le> c + c div 2 + 1) \<and>
     intervalsFrom (MaxInterval b) (currentInterval b) (map (fst \<circ> snd) ws) \<and>
     timeline env n now ws t"
  using assms
proof (induction "nat (MaxElapsedTime b - (now - startTime b) + 1)"
    arbitrary: n b now waits rule: less_induct)
  case less
  let ?now1 = "now + int (attemptTime env n)"
  let ?cur = "currentInterval b"
  let ?next = "getRandomValueFromInterval (randomDraw env n) ?cur"
  show ?case
  proof (cases "attemptError env n")
    case None
    then have "retryLoop (Suc 0) env n b now waits = Some (Succeeded, waits, ?now1)"
      by (rule retryLoop_success)
    then have "retryLoop (Suc 0) env n b now waits = Some (Succeeded, waits @ [], ?now1)"
      by (simp only: append_Nil2)
    with None show ?thesis
      by (intro exI [of _ "Suc 0"] exI [of _ Succeeded] exI [of _ "[]"] exI [of _ ?now1]) simp
  next
    case (Some err)
    show ?thesis
    proof (cases "MaxElapsedTime b < ?now1 - startTime b")
      case True
      have "retryLoop (Suc 0) env n b now waits = Some (GaveUp err, waits, ?now1)"
        by (rule retryLoop_stop) (use Some less.prems(1) True in simp_all)
      then have "retryLoop (Suc 0) env n b now waits = Some (GaveUp err, waits @ [], ?now1)"
        by (simp only: append_Nil2)
      with Some True show ?thesis
        by (intro exI [of _ "Suc 0"] exI [of _ "GaveUp err"] exI [of _ "[]"] exI [of _ ?now1])
          simp
    next
      case False
      let ?b' = "incrementCurrentInterval b"
      have cur0: "0 \<le> ?cur"
        using less.prems(2) by simp
      have lower: "?cur div 2 \<le> ?next" and upper: "?next \<le> ?cur + ?cur div 2 + 1"
        using getRandomValue_lower [OF cur0] getRandomValue_upper [OF cur0] by simp_all
      have pos: "1 \<le> ?next"
        using lower less.prems(2) by linarith
      have step: "\<And>fuel. retryLoop (Suc fuel) env n b now waits =
          retryLoop fuel env (Suc n) ?b' (?now1 + ?next) (waits @ [(?now1, ?cur, ?next)])"
        by (rule retryLoop_again) (use Some False cur0 in simp_all)
      have fields: "MaxElapsedTime ?b' = MaxElapsedTime b" "MaxInterval ?b' = MaxInterval b"
        "startTime ?b' = startTime b" "currentInterval ?b' = grow (MaxInterval b) ?cur"
        by (simp_all add: incrementCurrentInterval_def)
      have smaller: "nat (MaxElapsedTime ?b' - (?now1 + ?next - startTime ?b') + 1) <
          nat (MaxElapsedTime b - (now - startTime b) + 1)"
        using False pos by (simp add: fields)
      have inv: "0 < MaxElapsedTime ?b'" "2 \<le> currentInterval ?b'"
        "currentInterval ?b' \<le> MaxInterval ?b'"
        using less.prems grow_bounds [of ?cur "MaxInterval b"] by (simp_all add: fields)
      from less.hyps [OF smaller inv, of "Suc n" "waits @ [(?now1, ?cur, ?next)]"]
      obtain fuel out ws t where
        run: "retryLoop fuel env (Suc n) ?b' (?now1 + ?next) (waits @ [(?now1, ?cur, ?next)]) =
          Some (out, (waits @ [(?now1, ?cur, ?next)]) @ ws, t)"
        and failed: "\<forall>i < length ws. attemptError env (Suc n + i) \<noteq> None"
        and last: "case out of
            Succeeded \<Rightarrow> attemptError env (Suc n + length ws) = None
          | GaveUp err \<Rightarrow> attemptError env (Suc n + length ws) = Some err \<and>
              MaxElapsedTime ?b' < t - startTime ?b'"
        and caps: "\<forall>(ended, c, w) \<in> set ws.
            ended - startTime ?b' \<le> MaxElapsedTime ?b' \<and>
            c \<le> MaxInterval ?b' \<and> c div 2 \<le> w \<and> w \<le> c + c div 2 + 1"
        and ivs: "intervalsFrom (MaxInterval ?b') (currentInterval ?b') (map (fst \<circ> snd) ws)"
        and tl: "timeline env (Suc n) (?now1 + ?next) ws t"
        by blast
      let ?ws = "(?now1, ?cur, ?next) # ws"
      have 1: "retryLoop (Suc fuel) env n b now waits = Some (out, waits @ ?ws, t)"
        using step run by simp
      have 2: "\<forall>i < length ?ws. attemptError env (n + i) \<noteq> None"
      proof (intro allI impI)
        fix i assume "i < length ?ws"
        then show "attemptError env (n + i) \<noteq> None"
          using failed Some by (cases i) auto
      qed
      have 3: "case out of
            Succeeded \<Rightarrow> attemptError env (n + length ?ws) = None
          | GaveUp err \<Rightarrow> attemptError env (n + length ?ws) = Some err \<and>
              MaxElapsedTime b < t - startTime b"
        using last by (cases out) (simp_all add: fields)
      have 4: "\<forall>(ended, c, w) \<in> set ?ws.
            ended - startTime b \<le> MaxElapsedTime b \<and>
            c \<le> MaxInterval b \<and> c div 2 \<le> w \<and> w \<le> c + c div 2 + 1"
        using caps lower upper less.prems(3) False by (simp add: fields)
      have 5: "intervalsFrom (MaxInterval b) ?cur (map (fst \<circ> snd) ?ws)"
        using ivs by (simp add: fields)
      have 6: "timeline env n now ?ws t"
        using tl by simp
      from 1 2 3 4 5 6 show ?thesis by blast
    qed
  qed
qed

text \<open>More fuel does not change a result, so two results of one loop are the same.\<close>

lemma retryLoop_more_fuel:
  "retryLoop fuel env n b now waits = Some r \<Longrightarrow>
   retryLoop (fuel + k) env n b now waits = Some r"
  by (induction fuel arbitrary: n b now waits)
    (auto simp: Let_def split: option.splits prod.splits if_splits)

lemma retryLoop_same:
  assumes "retryLoop fuel' env n b now waits = Some r'"
    and "retryLoop fuel env n b now waits = Some r"
  shows "r' = r"
  using retryLoop_more_fuel [OF assms(1), of fuel] retryLoop_more_fuel [OF assms(2), of fuel']
  by (simp add: add.commute)

lemma getRandomValue_zero: "getRandomValueFromInterval 0 cur = cur div 2"
proof -
  have "(cur * 2 ^ 53) div (2 * 2 ^ 53) = cur div (2::int)"
    by (rule div_mult_mult2) simp
  then show ?thesis
    by (simp add: getRandomValueFromInterval_def)
qed

text \<open>One round of the loop when no address is ever found.\<close>

lemma neverFound_round:
  assumes "0 \<le> currentInterval b"
  shows "retryLoop (Suc fuel) neverFound n b now waits =
     (if MaxElapsedTime b \<noteq> 0 \<and> MaxElapsedTime b < now + 1000000 - startTime b
      then Some (GaveUp ''not up public found, waiting'', waits, now + 1000000)
      else retryLoop fuel neverFound (Suc n) (incrementCurrentInterval b)
             (now + 1000000 + currentInterval b div 2)
             (waits @ [(now + 1000000, currentInterval b, currentInterval b div 2)]))"
proof -
  have env: "attemptError neverFound n = Some ''not up public found, waiting''"
    "int (attemptTime neverFound n) = 1000000" "randomDraw neverFound n = 0"
    by (simp_all add: neverFound_def)
  show ?thesis
  proof (cases "MaxElapsedTime b \<noteq> 0 \<and> MaxElapsedTime b < now + 1000000 - startTime b")
    case True
    have "retryLoop (Suc fuel) neverFound n b now waits =
        Some (GaveUp ''not up public found, waiting'', waits,
          now + int (attemptTime neverFound n))"
      by (rule retryLoop_stop) (use True env in simp_all)
    with True show ?thesis
      by (simp del: retryLoop.simps add: env)
  next
    case False
    have "retryLoop (Suc fuel) neverFound n b now waits =
        retryLoop fuel neverFound (Suc n) (incrementCurrentInterval b)
          (now + int (attemptTime neverFound n) +
           getRandomValueFromInterval (randomDraw neverFound n) (currentInterval b))
          (waits @ [(now + int (attemptTime neverFound n), currentInterval b,
             getRandomValueFromInterval (randomDraw neverFound n) (currentInterval b))])"
      by (rule retryLoop_again) (use False env assms in simp_all)
    with False show ?thesis
      by (auto simp del: retryLoop.simps simp add: env getRandomValue_zero)
  qed
qed

lemma neverFound_round_numeral:
  assumes "0 \<le> currentInterval b"
  shows "retryLoop (numeral k) neverFound n b now waits =
     (if MaxElapsedTime b \<noteq> 0 \<and> MaxElapsedTime b < now + 1000000 - startTime b
      then Some (GaveUp ''not up public found, waiting'', waits, now + 1000000)
      else retryLoop (pred_numeral k) neverFound (Suc n) (incrementCurrentInterval b)
             (now + 1000000 + currentInterval b div 2)
             (waits @ [(now + 1000000, currentInterval b, currentInterval b div 2)]))"
  using neverFound_round [OF assms, of "pred_numeral k" n now waits]
  by (simp only: numeral_eq_Suc)

lemma waitForIP_neverFound:
  "summary (waitForIP 40 neverFound 0) =
     Some (GaveUp ''not up public found, waiting'', 27, 925492630119)"
  by (simp add: summary_def waitForIP_def RetryNotify_def zdbBackOff_def
      NewExponentialBackOff_def Reset_def neverFound_round neverFound_round_numeral
      incrementCurrentInterval_def grow_def minute_def second_def millisecond_def
      del: retryLoop.simps(2))

text \<open>
  C7 (as stated). The retry loop of \<^verbatim>\<open>createZdbContainer\<close> never gives up on its own
  while no address is found. With no address ever found and looks that take a
  millisecond each, the loop gives the error back after 27 waits, 925.49 seconds after
  it started.
\<close>

theorem waitForIP_gives_up_counterexample:
  "attemptError neverFound 27 = Some ''not up public found, waiting'' \<and>
   summary (waitForIP 40 neverFound 0) =
     Some (GaveUp ''not up public found, waiting'', 27, 925492630119)"
  using waitForIP_neverFound by (simp add: neverFound_def)

text \<open>
  C7 (amended). The retry in \<^verbatim>\<open>createZdbContainer\<close> uses exponential backoff: the
  interval starts at 500 milliseconds, grows by the factor 1.5 and is capped at 2
  minutes, and each wait is drawn between half and one and a half times the interval.
  The loop always ends, and with one result whatever the fuel: it goes on while the look
  for the address fails, ends with success at the first look that finds one, and gives
  up with the last error at the first failed look that ends more than 15 minutes (the
  library's default limit, which the code leaves in place) after the start: every
  failed look before the last ended within the 15 minutes.
\<close>

theorem waitForIP_ends:
  "\<exists>fuel out rounds t.
     waitForIP fuel env now = Some (out, rounds, t) \<and>
     (\<forall>fuel' r. waitForIP fuel' env now = Some r \<longrightarrow> r = (out, rounds, t)) \<and>
     (\<forall>i < length rounds. attemptError env i \<noteq> None) \<and>
     (case out of
        Succeeded \<Rightarrow> attemptError env (length rounds) = None
      | GaveUp err \<Rightarrow> attemptError env (length rounds) = Some err \<and> 15 * minute < t - now) \<and>
     (\<forall>(ended, c, w) \<in> set rounds.
        ended - now \<le> 15 * minute \<and>
        c \<le> 2 * minute \<and> c div 2 \<le> w \<and> w \<le> c + c div 2 + 1) \<and>
     intervalsFrom (2 * minute) (500 * millisecond) (map (fst \<circ> snd) rounds) \<and>
     timeline env 0 now rounds t"
proof -
  let ?b = "Reset (zdbBackOff now) now"
  have fields: "MaxElapsedTime ?b = 15 * minute" "MaxInterval ?b = 2 * minute"
    "currentInterval ?b = 500 * millisecond" "startTime ?b = now"
    by (simp_all add: Reset_def zdbBackOff_def NewExponentialBackOff_def)
  have "0 < MaxElapsedTime ?b" "2 \<le> currentInterval ?b" "currentInterval ?b \<le> MaxInterval ?b"
    by (simp_all add: fields minute_def second_def millisecond_def)
  from retryLoop_ends [OF this, of env 0 now "[]"]
  obtain fuel out ws t where
    run: "retryLoop fuel env 0 ?b now [] = Some (out, [] @ ws, t)"
    and failed: "\<forall>i < length ws. attemptError env (0 + i) \<noteq> None"
    and last: "case out of
        Succeeded \<Rightarrow> attemptError env (0 + length ws) = None
      | GaveUp err \<Rightarrow> attemptError env (0 + length ws) = Some err \<and>
          MaxElapsedTime ?b < t - startTime ?b"
    and caps: "\<forall>(ended, c, w) \<in> set ws.
        ended - startTime ?b \<le> MaxElapsedTime ?b \<and>
        c \<le> MaxInterval ?b \<and> c div 2 \<le> w \<and> w \<le> c + c div 2 + 1"
    and ivs: "intervalsFrom (MaxInterval ?b) (currentInterval ?b) (map (fst \<circ> snd) ws)"
    and tl: "timeline env 0 now ws t"
    by blast
  have 1: "waitForIP fuel env now = Some (out, ws, t)"
    using run by (simp add: waitForIP_def RetryNotify_def)
  have 2: "\<forall>fuel' r. waitForIP fuel' env now = Some r \<longrightarrow> r = (out, ws, t)"
    using 1 retryLoop_same [of _ env 0 ?b now "[]" _ fuel "(out, ws, t)"]
    by (simp add: waitForIP_def RetryNotify_def)
  have 3: "\<forall>i < length ws. attemptError env i \<noteq> None"
    using failed by simp
  have 4: "case out of
        Succeeded \<Rightarrow> attemptError env (length ws) = None
      | GaveUp err \<Rightarrow> attemptError env (length ws) = Some err \<and> 15 * minute < t - now"
    using last by (cases out) (simp_all add: fields)
  have 5: "\<forall>(ended, c, w) \<in> set ws.
        ended - now \<le> 15 * minute \<and>
        c \<le> 2 * minute \<and> c div 2 \<le> w \<and> w \<le> c + c div 2 + 1"
    using caps by (simp add: fields)
  have 6: "intervalsFrom (2 * minute) (500 * millisecond) (map (fst \<circ> snd) ws)"
    using ivs by (simp add: fields)
  from 1 2 3 4 5 6 tl show ?thesis by blast
qed

theorem waitForIP_ends_witness:
  "(\<exists>fuel out rounds t.
     waitForIP fuel neverFound 0 = Some (out, rounds, t) \<and>
     (\<forall>fuel' r. waitForIP fuel' neverFound 0 = Some r \<longrightarrow> r = (out, rounds, t)) \<and>
     (\<forall>i < length rounds. attemptError neverFound i \<noteq> None) \<and>
     (case out of
        Succeeded \<Rightarrow> attemptError neverFound (length rounds) = None
      | GaveUp err \<Rightarrow>
          attemptError neverFound (length rounds) = Some err \<and> 15 * minute < t - 0) \<and>
     (\<forall>(ended, c, w) \<in> set rounds.
        ended - 0 \<le> 15 * minute \<and>
        c \<le> 2 * minute \<and> c div 2 \<le> w \<and> w \<le> c + c div 2 + 1) \<and>
     intervalsFrom (2 * minute) (500 * millisecond) (map (fst \<circ> snd) rounds) \<and>
     timeline neverFound 0 0 rounds t) \<and>
   summary (waitForIP 40 neverFound 0) =
     Some (GaveUp ''not up public found, waiting'', 27, 925492630119) \<and>
   15 * minute < 925492630119 - 0"
  using waitForIP_ends [of neverFound 0] waitForIP_neverFound
  by (simp add: minute_def second_def millisecond_def)

end
